theory Spec2Isabelle
  imports Complex_Main "HOL-Library.Sublist"
begin

section \<open>JavaScript numbers\<close>

text \<open>
  The sources compute with JavaScript numbers. A number is modelled as a real or one of
  the three special values of IEEE-754. The operations \<open>js_add\<close>, \<open>js_sub\<close>, \<open>js_mul\<close> and
  \<open>js_div\<close> are exact; the operations \<open>dbl_add\<close>, \<open>dbl_sub\<close>, \<open>dbl_mul\<close> and \<open>dbl_div\<close>
  round the exact result to the nearest double, as the machine does. The compositor is
  written with the exact operations; the preview, whose trim window is compared with
  computed bounds to the last bit, with the rounded ones. Overflow, subnormal numbers and
  the sign of zero are not modelled. Division by a finite zero gives an infinity of the
  sign of the dividend (the divisors of these sources, a viewport size and a track width,
  are never the negative zero) and zero by zero gives \<open>NaN\<close>.
\<close>

datatype jsnum = Fin real | PosInf | NegInf | NaN

fun js_neg :: "jsnum \<Rightarrow> jsnum" where
  "js_neg (Fin a) = Fin (- a)"
| "js_neg PosInf = NegInf"
| "js_neg NegInf = PosInf"
| "js_neg NaN = NaN"

text \<open>The sign of a number that is not \<open>NaN\<close>: \<open>-1\<close>, \<open>0\<close> or \<open>1\<close>.\<close>

fun js_sign :: "jsnum \<Rightarrow> real" where
  "js_sign (Fin a) = sgn a"
| "js_sign PosInf = 1"
| "js_sign NegInf = - 1"
| "js_sign NaN = 0"

definition inf_of_sign :: "real \<Rightarrow> jsnum" where
  "inf_of_sign s = (if 0 < s then PosInf else if s < 0 then NegInf else NaN)"

fun js_add :: "jsnum \<Rightarrow> jsnum \<Rightarrow> jsnum" where
  "js_add (Fin a) (Fin b) = Fin (a + b)"
| "js_add NaN _ = NaN"
| "js_add _ NaN = NaN"
| "js_add PosInf NegInf = NaN"
| "js_add NegInf PosInf = NaN"
| "js_add PosInf _ = PosInf"
| "js_add NegInf _ = NegInf"
| "js_add (Fin a) y = y"

definition js_sub :: "jsnum \<Rightarrow> jsnum \<Rightarrow> jsnum" where
  "js_sub x y = js_add x (js_neg y)"

fun js_mul :: "jsnum \<Rightarrow> jsnum \<Rightarrow> jsnum" where
  "js_mul (Fin a) (Fin b) = Fin (a * b)"
| "js_mul NaN _ = NaN"
| "js_mul _ NaN = NaN"
| "js_mul x y = inf_of_sign (js_sign x * js_sign y)"

fun js_div :: "jsnum \<Rightarrow> jsnum \<Rightarrow> jsnum" where
  "js_div (Fin a) (Fin b) = (if b = 0 then inf_of_sign (sgn a) else Fin (a / b))"
| "js_div NaN _ = NaN"
| "js_div _ NaN = NaN"
| "js_div (Fin a) _ = Fin 0"
| "js_div x (Fin b) = inf_of_sign (js_sign x * (if b < 0 then - 1 else 1))"
| "js_div _ _ = NaN"

text \<open>The comparisons \<open><=\<close> and \<open>>=\<close>: false as soon as one side is \<open>NaN\<close>.\<close>

fun js_le :: "jsnum \<Rightarrow> jsnum \<Rightarrow> bool" where
  "js_le (Fin a) (Fin b) = (a \<le> b)"
| "js_le NaN _ = False"
| "js_le _ NaN = False"
| "js_le NegInf _ = True"
| "js_le _ PosInf = True"
| "js_le _ _ = False"

definition js_ge :: "jsnum \<Rightarrow> jsnum \<Rightarrow> bool" where
  "js_ge x y = js_le y x"

text \<open>\<open>Math.min\<close> and \<open>Math.max\<close> of two arguments: \<open>NaN\<close> if either is.\<close>

definition js_min :: "jsnum \<Rightarrow> jsnum \<Rightarrow> jsnum" where
  "js_min x y = (if x = NaN \<or> y = NaN then NaN else if js_le x y then x else y)"

definition js_max :: "jsnum \<Rightarrow> jsnum \<Rightarrow> jsnum" where
  "js_max x y = (if x = NaN \<or> y = NaN then NaN else if js_le x y then y else x)"

text \<open>Truthiness of a number, and the operator \<open>||\<close> on numbers.\<close>

definition js_truthy :: "jsnum \<Rightarrow> bool" where
  "js_truthy x = (x \<noteq> NaN \<and> x \<noteq> Fin 0)"

definition js_or :: "jsnum \<Rightarrow> jsnum \<Rightarrow> jsnum" where
  "js_or x y = (if js_truthy x then x else y)"

definition js_isFinite :: "jsnum \<Rightarrow> bool" where
  "js_isFinite x = (case x of Fin _ \<Rightarrow> True | _ \<Rightarrow> False)"

text \<open>
  Rounding to the nearest double: a real \<open>x\<close> with \<open>2 ^ k \<le> |x| < 2 ^ (k + 1)\<close> is
  rounded to the nearest multiple of \<open>2 ^ (k - 52)\<close>, a tie going to the even multiple.
  The exponent is not bounded.
\<close>

definition round_even :: "real \<Rightarrow> int" where
  "round_even y =
    (let f = \<lfloor>y\<rfloor>
     in if y - of_int f < 1 / 2 then f
        else if 1 / 2 < y - of_int f then f + 1
        else if even f then f else f + 1)"

definition pow2 :: "int \<Rightarrow> real" where
  "pow2 k = (if 0 \<le> k then 2 ^ nat k else 1 / 2 ^ nat (- k))"

definition expo :: "real \<Rightarrow> int" where
  "expo x = \<lfloor>log 2 \<bar>x\<bar>\<rfloor>"

definition fl :: "real \<Rightarrow> real" where
  "fl x = (if x = 0 then 0
           else of_int (round_even (x / pow2 (expo x - 52))) * pow2 (expo x - 52))"

fun js_round :: "jsnum \<Rightarrow> jsnum" where
  "js_round (Fin a) = Fin (fl a)"
| "js_round x = x"


definition dbl_sub :: "jsnum \<Rightarrow> jsnum \<Rightarrow> jsnum" where
  "dbl_sub x y = js_round (js_sub x y)"

definition dbl_mul :: "jsnum \<Rightarrow> jsnum \<Rightarrow> jsnum" where
  "dbl_mul x y = js_round (js_mul x y)"

definition dbl_div :: "jsnum \<Rightarrow> jsnum \<Rightarrow> jsnum" where
  "dbl_div x y = js_round (js_div x y)"


section \<open>Media streams and tracks\<close>

text \<open>
  A track is known by its identity and its kind; a \<open>MediaStream\<close> is the list of its
  tracks. Stopping a track is an effect on the world, recorded by the component that
  does it (see \<open>api_call\<close> below).
\<close>

datatype track_kind = AudioTrack | VideoTrack

record MediaStreamTrack =
  track_id :: nat
  track_kind :: track_kind

type_synonym MediaStream = "MediaStreamTrack list"

definition getAudioTracks :: "MediaStream \<Rightarrow> MediaStreamTrack list" where
  "getAudioTracks s = filter (\<lambda>t. track_kind t = AudioTrack) s"

definition getVideoTracks :: "MediaStream \<Rightarrow> MediaStreamTrack list" where
  "getVideoTracks s = filter (\<lambda>t. track_kind t = VideoTrack) s"

definition getTracks :: "MediaStream \<Rightarrow> MediaStreamTrack list" where
  "getTracks s = s"

text \<open>An exception value: the catch handlers of the sources read its name and message.\<close>

record js_error =
  err_name :: string
  err_message :: string


section \<open>streamUtils: the video compositor\<close>

text \<open>
  The calls made on the 2D context, in order. The first argument of \<open>DrawImage\<close> names
  the video element drawn.
\<close>

datatype video_element = ScreenVideo | CameraVideo

datatype canvas_op =
    DrawImage video_element jsnum jsnum jsnum jsnum
  | Save
  | BeginPath
  | Arc jsnum jsnum jsnum jsnum jsnum
  | Clip
  | Translate jsnum jsnum
  | Scale jsnum jsnum
  | Restore
  | SetLineWidth jsnum
  | SetStrokeStyle string
  | Stroke

text \<open>
  The compositor: \<open>ctx\<close> is \<open>None\<close> when \<open>getContext('2d')\<close> returned null, and otherwise
  holds the calls issued on the context so far. \<open>raf_requests\<close> counts the calls of
  \<open>requestAnimationFrame\<close>, \<open>animationId\<close> is the handle of the last one, and
  \<open>pos_polls\<close> counts the calls of \<open>getOverlayPos\<close>.
\<close>

record VideoCompositor =
  ctx :: "canvas_op list option"
  canvas_width :: nat
  canvas_height :: nat
  animationId :: nat
  raf_requests :: nat
  pos_polls :: nat

text \<open>What one tick reads from outside the compositor.\<close>

record tick_env =
  videoWidth :: nat
  videoHeight :: nat
  innerWidth :: jsnum
  innerHeight :: jsnum
  overlay_x :: jsnum
  overlay_y :: jsnum
  raf_handle :: nat

definition two_pi :: jsnum where
  "two_pi = Fin (pi * 2)"

text \<open>The calls of the block guarded by \<open>if (width && height)\<close> in \<open>draw\<close>.\<close>

definition draw_ops :: "tick_env \<Rightarrow> canvas_op list" where
  "draw_ops e =
    (let width = Fin (real (videoWidth e));
         height = Fin (real (videoHeight e));
         scaleX = js_div width (innerWidth e);
         scaleY = js_div height (innerHeight e);
         safeScale = js_or scaleX (Fin 1);
         bubbleSize = js_mul (Fin 192) safeScale;
         x = js_mul (overlay_x e) scaleX;
         y = js_mul (overlay_y e) scaleY
     in [DrawImage ScreenVideo (Fin 0) (Fin 0) width height,
         Save,
         BeginPath,
         Arc (js_add x (js_div bubbleSize (Fin 2))) (js_add y (js_div bubbleSize (Fin 2)))
             (js_div bubbleSize (Fin 2)) (Fin 0) two_pi,
         Clip,
         Translate (js_add x bubbleSize) y,
         Scale (Fin (- 1)) (Fin 1),
         DrawImage CameraVideo (Fin 0) (Fin 0) bubbleSize bubbleSize,
         Restore,
         BeginPath,
         Arc (js_add x (js_div bubbleSize (Fin 2))) (js_add y (js_div bubbleSize (Fin 2)))
             (js_div bubbleSize (Fin 2)) (Fin 0) two_pi,
         SetLineWidth (js_mul (Fin 4) safeScale),
         SetStrokeStyle ''rgba(255, 255, 255, 0.2)'',
         Stroke])"

text \<open>
  One run of the closure \<open>draw\<close> of \<open>VideoCompositor.start\<close>: return at once without a
  context; resize the canvas when the resolution is known and differs; draw when the
  resolution is known; request the next frame.
\<close>

definition draw :: "tick_env \<Rightarrow> VideoCompositor \<Rightarrow> VideoCompositor" where
  "draw e vc =
    (case ctx vc of
       None \<Rightarrow> vc
     | Some ops \<Rightarrow>
        (let width = videoWidth e;
             height = videoHeight e;
             vc1 = (if width \<noteq> 0 \<and> height \<noteq> 0 \<and>
                       (canvas_width vc \<noteq> width \<or> canvas_height vc \<noteq> height)
                    then vc\<lparr>canvas_width := width, canvas_height := height\<rparr> else vc);
             vc2 = (if width \<noteq> 0 \<and> height \<noteq> 0
                    then vc1\<lparr>ctx := Some (ops @ draw_ops e), pos_polls := pos_polls vc1 + 1\<rparr>
                    else vc1)
         in vc2\<lparr>animationId := raf_handle e, raf_requests := raf_requests vc2 + 1\<rparr>))"


text \<open>The calls a tick added to the context.\<close>

definition ctx_calls :: "VideoCompositor \<Rightarrow> canvas_op list" where
  "ctx_calls vc = (case ctx vc of None \<Rightarrow> [] | Some ops \<Rightarrow> ops)"

definition issued :: "VideoCompositor \<Rightarrow> VideoCompositor \<Rightarrow> canvas_op list" where
  "issued vc vc' = drop (length (ctx_calls vc)) (ctx_calls vc')"


section \<open>streamUtils: the audio mixer\<close>

text \<open>
  What \<open>mergeAudioStreams\<close> finds in the browser. \<open>ctx_ctor_error\<close> is the exception
  thrown by \<open>new AudioContextClass()\<close>, if any (the browser has no such constructor, or
  refuses another context); \<open>createMediaStreamDestination\<close> is taken to succeed, and
  \<open>dest_stream\<close> is the stream of the destination node. The two flags say whether
  creating or connecting the source node of a stream throws for a reason of the browser's
  own (a stream consumed elsewhere).
\<close>

record audio_env =
  ctx_ctor_error :: "js_error option"
  ctx_suspended :: bool
  resume_fails :: bool
  desktop_source_fails :: bool
  voice_source_fails :: bool
  dest_stream :: MediaStream

text \<open>
  \<open>createMediaStreamSource\<close> followed by \<open>connect\<close>: the Web Audio API throws
  \<open>InvalidStateError\<close> for a stream with no audio track.
\<close>

definition createMediaStreamSource :: "bool \<Rightarrow> MediaStream \<Rightarrow> js_error + MediaStream" where
  "createMediaStreamSource fails s =
    (if getAudioTracks s = [] then Inl \<lparr>err_name = ''InvalidStateError'', err_message = []\<rparr>
     else if fails then Inl \<lparr>err_name = ''InvalidAccessError'', err_message = []\<rparr>
     else Inr s)"

text \<open>
  The result of the mixer: the stream it returns, the streams whose source nodes were
  connected to the destination, and the warnings written to the console.
\<close>

record merged =
  out_stream :: MediaStream
  connected :: "MediaStream list"
  warnings :: "string list"

text \<open>One guarded \<open>try { createMediaStreamSource; connect } catch { warn }\<close> block.\<close>

definition try_connect :: "bool \<Rightarrow> string \<Rightarrow> MediaStream \<Rightarrow> merged \<Rightarrow> merged" where
  "try_connect fails msg s m =
    (case createMediaStreamSource fails s of
       Inr src \<Rightarrow> m\<lparr>connected := connected m @ [src]\<rparr>
     | Inl e \<Rightarrow> m\<lparr>warnings := warnings m @ [msg]\<rparr>)"

text \<open>
  The mixer. The constructor call is outside every \<open>try\<close>, so its exception leaves the
  function (\<open>Inl\<close>).
\<close>

definition mergeAudioStreams ::
  "audio_env \<Rightarrow> MediaStream \<Rightarrow> MediaStream option \<Rightarrow> js_error + merged" where
  "mergeAudioStreams a desktopStream voiceStream =
    (case ctx_ctor_error a of
       Some err \<Rightarrow> Inl err
     | None \<Rightarrow>
        (let m0 = \<lparr>out_stream = [], connected = [], warnings = []\<rparr>;
             m1 = (if getAudioTracks desktopStream \<noteq> []
                   then try_connect (desktop_source_fails a) ''Failed to connect desktop audio:''
                          desktopStream m0
                   else m0);
             m2 = (case voiceStream of
                     None \<Rightarrow> m1
                   | Some v \<Rightarrow>
                       if getAudioTracks v \<noteq> []
                       then try_connect (voice_source_fails a) ''Failed to connect voice audio:''
                              v m1
                       else m1);
             tracks = getVideoTracks desktopStream @ getAudioTracks (dest_stream a);
             m3 = (if ctx_suspended a \<and> resume_fails a
                   then m2\<lparr>warnings := warnings m2 @ [''Failed to resume AudioContext:'']\<rparr>
                   else m2)
         in Inr (m3\<lparr>out_stream := tracks\<rparr>)))"


section \<open>App: the recording session\<close>

datatype RecorderState = IDLE | RECORDING | PAUSED | REVIEW

record RecorderSettings =
  showCamera :: bool
  enableMic :: bool
  enableSystemAudio :: bool

text \<open>A \<open>Blob\<close>: its bytes and its type. \<open>new Blob(parts, {type})\<close> concatenates.\<close>

datatype blob = Blob (blob_bytes: "nat list") (blob_type: string)

definition blob_size :: "blob \<Rightarrow> nat" where
  "blob_size b = length (blob_bytes b)"

definition new_Blob :: "blob list \<Rightarrow> string \<Rightarrow> blob" where
  "new_Blob parts ty = Blob (concat (map blob_bytes parts)) ty"

text \<open>The writable file stream of the save dialog: the chunks written to it, in order.\<close>

record writable =
  written :: "blob list"

datatype recorder_state = Inactive | Recording | Paused

record MediaRecorder =
  rec_stream :: MediaStream
  rec_mimeType :: string
  rec_state :: recorder_state
  rec_timeslice :: "nat option"

text \<open>The calls the session makes on the browser, in order.\<close>

datatype api_call =
    GetDisplayMedia bool
  | ShowSaveFilePicker
  | CreateWritable
  | GetUserMediaAudio
  | GetUserMediaCamera
  | NewMediaRecorder
  | RecorderStart
  | TrackStop nat
  | SetInterval nat
  | ClearInterval nat

text \<open>The state and the refs of the component, and the log of its calls.\<close>

record App =
  state :: RecorderState
  settings :: RecorderSettings
  cameraStream :: "MediaStream option"
  timer :: nat
  error :: "string option"
  notification :: "string option"
  isSelecting :: bool
  mediaRecorderRef :: "MediaRecorder option"
  chunksRef :: "blob list"
  timerIntervalRef :: "nat option"
  streamRef :: "MediaStream option"
  writableStreamRef :: "writable option"
  calls :: "api_call list"

text \<open>
  What one run of \<open>startRecording\<close> meets: the outcome of each prompt and constructor,
  the value read from \<open>combinedStream.active\<close>, and the two strings of the translation
  table (which is not among the sources) the component shows.
\<close>

record start_env =
  display_result :: "js_error + MediaStream"
  has_showSaveFilePicker :: bool
  picker_result :: "js_error + unit"
  createWritable_result :: "js_error + unit"
  mic_result :: "js_error + MediaStream"
  audio :: audio_env
  supported_types :: "string list"
  combined_active :: bool
  recorder_ctor_error :: "js_error option"
  recorder_start_error :: "js_error option"
  interval_handle :: nat
  camera_result :: "js_error + MediaStream"
  t_errorGeneric :: string
  t_saveSuccess :: string

definition call :: "api_call \<Rightarrow> App \<Rightarrow> App" where
  "call c st = st\<lparr>calls := calls st @ [c]\<rparr>"

text \<open>\<open>stream.getTracks().forEach(t => t.stop())\<close>.\<close>

definition stop_tracks :: "MediaStream \<Rightarrow> App \<Rightarrow> App" where
  "stop_tracks s st = st\<lparr>calls := calls st @ map (\<lambda>t. TrackStop (track_id t)) (getTracks s)\<rparr>"


definition initializeCamera :: "start_env \<Rightarrow> App \<Rightarrow> App" where
  "initializeCamera e st =
    (case camera_result e of
       Inr s \<Rightarrow> (call GetUserMediaCamera st)\<lparr>cameraStream := Some s\<rparr>
     | Inl err \<Rightarrow> (call GetUserMediaCamera st)\<lparr>settings := (settings st)\<lparr>showCamera := False\<rparr>\<rparr>)"

definition getSupportedMimeType :: "string list \<Rightarrow> string" where
  "getSupportedMimeType supported =
    (case filter (\<lambda>ty. ty \<in> set supported)
            [''video/webm;codecs=vp9,opus'', ''video/webm;codecs=vp8,opus'',
             ''video/webm'', ''video/mp4''] of
       ty # _ \<Rightarrow> ty
     | [] \<Rightarrow> ''video/webm'')"

definition startTimer :: "start_env \<Rightarrow> App \<Rightarrow> App" where
  "startTimer e st =
    (let st1 = (case timerIntervalRef st of
                  Some i \<Rightarrow> if i \<noteq> 0 then call (ClearInterval i) st else st
                | None \<Rightarrow> st)
     in (call (SetInterval (interval_handle e)) st1)\<lparr>timerIntervalRef := Some (interval_handle e)\<rparr>)"

text \<open>
  Step 2 of \<open>startRecording\<close>, the save dialog with its own \<open>try/catch\<close>: either the
  function returns (the dialog was aborted) or it goes on, with or without a writable.
\<close>

datatype save_outcome = Returned App | Proceed App

definition save_catch :: "js_error \<Rightarrow> MediaStream \<Rightarrow> App \<Rightarrow> save_outcome" where
  "save_catch e displayStream st =
    (if err_name e = ''AbortError'' then Returned (stop_tracks displayStream st)
     else Proceed st)"

definition setup_file_handle :: "start_env \<Rightarrow> MediaStream \<Rightarrow> App \<Rightarrow> save_outcome" where
  "setup_file_handle e displayStream st =
    (if has_showSaveFilePicker e then
       (case picker_result e of
          Inl err \<Rightarrow> save_catch err displayStream (call ShowSaveFilePicker st)
        | Inr h \<Rightarrow>
           (case createWritable_result e of
              Inl err \<Rightarrow>
                save_catch err displayStream (call CreateWritable (call ShowSaveFilePicker st))
            | Inr w \<Rightarrow>
                Proceed ((call CreateWritable (call ShowSaveFilePicker st))
                           \<lparr>writableStreamRef := Some \<lparr>written = []\<rparr>\<rparr>)))
     else Proceed st)"

text \<open>Step 3: the microphone, whose failure is swallowed.\<close>

definition get_mic :: "start_env \<Rightarrow> App \<Rightarrow> MediaStream option \<times> App" where
  "get_mic e st =
    (if enableMic (settings st) then
       (case mic_result e of
          Inr m \<Rightarrow> (Some m, call GetUserMediaAudio st)
        | Inl err \<Rightarrow> (None, call GetUserMediaAudio st))
     else (None, st))"

text \<open>
  Steps 4 and 5: mix, check that the combined stream is active, build and start the
  recorder. \<open>Inl\<close> is an exception thrown inside the outer \<open>try\<close>, with the state reached.
\<close>

definition start_recorder ::
  "start_env \<Rightarrow> MediaStream \<Rightarrow> MediaStream option \<Rightarrow> App \<Rightarrow> (js_error \<times> App) + App" where
  "start_recorder e displayStream micStream st =
    (case mergeAudioStreams (audio e) displayStream micStream of
       Inl err \<Rightarrow> Inl (err, st)
     | Inr m \<Rightarrow>
        (let combinedStream = out_stream m;
             st1 = st\<lparr>streamRef := Some combinedStream\<rparr>;
             selectedMimeType = getSupportedMimeType (supported_types e)
         in if \<not> combined_active e then Inr st1
            else
              (case recorder_ctor_error e of
                 Some err \<Rightarrow> Inl (err, call NewMediaRecorder st1)
               | None \<Rightarrow>
                  (let recorder = \<lparr>rec_stream = combinedStream, rec_mimeType = selectedMimeType,
                                   rec_state = Inactive, rec_timeslice = None\<rparr>;
                       st2 = call NewMediaRecorder st1
                   in case recorder_start_error e of
                        Some err \<Rightarrow> Inl (err, call RecorderStart st2)
                      | None \<Rightarrow>
                         (let st3 = (call RecorderStart st2)
                                      \<lparr>mediaRecorderRef :=
                                         Some (recorder\<lparr>rec_state := Recording,
                                                         rec_timeslice := Some 1000\<rparr>)\<rparr>;
                              st4 = startTimer e (st3\<lparr>timer := 0\<rparr>);
                              st5 = st4\<lparr>state := RECORDING\<rparr>
                          in Inr (if showCamera (settings st5) \<and> cameraStream st5 = None
                                  then initializeCamera e st5 else st5))))))"

text \<open>
  The body of the outer \<open>try\<close>. An exception comes with the value of the variable
  \<open>displayStream\<close> at that point, which the handler reads.
\<close>

definition start_try :: "start_env \<Rightarrow> App \<Rightarrow> (js_error \<times> MediaStream option \<times> App) + App" where
  "start_try e st =
    (let st1 = call (GetDisplayMedia (enableSystemAudio (settings st))) st
     in case display_result e of
          Inl err \<Rightarrow> Inl (err, None, st1)
        | Inr displayStream \<Rightarrow>
           (let st2 = st1\<lparr>isSelecting := False\<rparr>
            in if getVideoTracks displayStream = []
               then Inl (\<lparr>err_name = ''TypeError'', err_message = []\<rparr>, Some displayStream, st2)
               else
                 (case setup_file_handle e displayStream st2 of
                    Returned st3 \<Rightarrow> Inr st3
                  | Proceed st3 \<Rightarrow>
                     (case get_mic e st3 of
                        (micStream, st4) \<Rightarrow>
                          (case start_recorder e displayStream micStream st4 of
                             Inl (err, st5) \<Rightarrow> Inl (err, Some displayStream, st5)
                           | Inr st5 \<Rightarrow> Inr st5)))))"

text \<open>\<open>String.prototype.includes\<close>.\<close>

definition str_includes :: "string \<Rightarrow> string \<Rightarrow> bool" where
  "str_includes hay needle = sublist needle hay"

definition start_catch :: "start_env \<Rightarrow> js_error \<Rightarrow> MediaStream option \<Rightarrow> App \<Rightarrow> App" where
  "start_catch e err displayStream st =
    (let st1 = (case displayStream of Some s \<Rightarrow> stop_tracks s st | None \<Rightarrow> st);
         st2 = st1\<lparr>isSelecting := False\<rparr>
     in if err_name err = ''NotAllowedError'' \<or> err_name err = ''PermissionDeniedError'' \<or>
           str_includes (err_message err) ''Permission denied'' \<or>
           str_includes (err_message err) ''user denied''
        then st2
        else st2\<lparr>error := Some (t_errorGeneric e)\<rparr>)"

text \<open>
  \<open>startRecording\<close>, run to completion: the events that could arrive while it awaits a
  prompt are not interleaved, and a state setter takes effect at once.
\<close>

definition startRecording :: "start_env \<Rightarrow> App \<Rightarrow> App" where
  "startRecording e st =
    (let st0 = st\<lparr>error := None, writableStreamRef := None, chunksRef := [],
                  isSelecting := True\<rparr>
     in case start_try e st0 of
          Inr st' \<Rightarrow> st'
        | Inl (err, displayStream, st') \<Rightarrow> start_catch e err displayStream st')"

text \<open>
  A \<open>dataavailable\<close> event: the chunk, and how the promise of \<open>write\<close> settles if the
  handler calls it. Each handler runs to its end before the next event.
\<close>

datatype write_outcome = WriteOk | WriteFails

definition ondataavailable :: "App \<Rightarrow> blob \<times> write_outcome \<Rightarrow> App" where
  "ondataavailable st ev =
    (case ev of (e_data, outcome) \<Rightarrow>
      if blob_size e_data > 0 then
        (case writableStreamRef st of
           Some w \<Rightarrow>
             (case outcome of
                WriteOk \<Rightarrow> st\<lparr>writableStreamRef := Some (w\<lparr>written := written w @ [e_data]\<rparr>)\<rparr>
              | WriteFails \<Rightarrow> st\<lparr>chunksRef := chunksRef st @ [e_data]\<rparr>)
         | None \<Rightarrow> st\<lparr>chunksRef := chunksRef st @ [e_data]\<rparr>)
      else st)"

text \<open>The chunk events of a session, delivered in arrival order.\<close>

fun deliver :: "App \<Rightarrow> (blob \<times> write_outcome) list \<Rightarrow> App" where
  "deliver st [] = st"
| "deliver st (ev # evs) = deliver (ondataavailable st ev) evs"

text \<open>
  What \<open>onstop\<close> hands to the user: the file closed on disk, or a download of one blob
  built from the given parts under the given name prefix.
\<close>

datatype artifact =
    SavedFile "blob list"
  | Download string "blob list" string

fun artifact_parts :: "artifact \<Rightarrow> blob list" where
  "artifact_parts (SavedFile parts) = parts"
| "artifact_parts (Download name parts ty) = parts"

definition artifact_blob :: "artifact \<Rightarrow> blob" where
  "artifact_blob a =
    (case a of SavedFile parts \<Rightarrow> new_Blob parts ''video/webm''
     | Download name parts ty \<Rightarrow> new_Blob parts ty)"



text \<open>The state of the component when it is mounted.\<close>

definition initial_App :: App where
  "initial_App =
    \<lparr>state = IDLE,
     settings = \<lparr>showCamera = True, enableMic = True, enableSystemAudio = True\<rparr>,
     cameraStream = None, timer = 0, error = None, notification = None,
     isSelecting = False, mediaRecorderRef = None, chunksRef = [],
     timerIntervalRef = None, streamRef = None, writableStreamRef = None, calls = []\<rparr>"


section \<open>Preview: the trim window and the re-recording\<close>

text \<open>
  Blobs are objects: a \<open>RecordedMedia\<close> refers to its blob by the position of the blob
  in the list of all blobs created so far, and \<open>new Blob\<close> appends to that list. The
  object URL of a blob is modelled by the same position. Durations are milliseconds.
\<close>

record RecordedMedia =
  media_blob :: nat
  media_url :: nat
  media_duration :: jsnum
  media_timestamp :: nat

definition blob_at :: "blob list \<Rightarrow> nat \<Rightarrow> blob option" where
  "blob_at heap i = (if i < length heap then Some (heap ! i) else None)"

text \<open>
  The video element, and the assignment \<open>video.currentTime = v\<close>, which throws a
  \<open>TypeError\<close> (\<open>None\<close>) when \<open>v\<close> is not finite.
\<close>

record HTMLVideoElement =
  el_currentTime :: jsnum
  el_duration :: jsnum
  el_paused :: bool

definition seek_to :: "jsnum \<Rightarrow> HTMLVideoElement \<Rightarrow> HTMLVideoElement option" where
  "seek_to v video = (if js_isFinite v then Some (video\<lparr>el_currentTime := v\<rparr>) else None)"

text \<open>
  The state of the component; \<open>videoRef\<close> is \<open>None\<close> when \<open>videoRef.current\<close> is null.
  The trim window and \<open>duration\<close> are seconds.
\<close>

record Preview =
  media :: RecordedMedia
  videoRef :: "HTMLVideoElement option"
  isPlaying :: bool
  isEditing :: bool
  trimStart :: jsnum
  trimEnd :: jsnum
  duration :: jsnum
  isProcessing :: bool
  currentTime :: jsnum


text \<open>
  The \<open>onTimeUpdate\<close> handler of the component. When the assignment of \<open>currentTime\<close>
  throws, the handler ends after \<open>pause\<close>.
\<close>

definition handleTimeUpdate :: "Preview \<Rightarrow> Preview" where
  "handleTimeUpdate st =
    (case videoRef st of
       None \<Rightarrow> st
     | Some video \<Rightarrow>
        (let time = el_currentTime video;
             st1 = st\<lparr>currentTime := time\<rparr>
         in if isEditing st \<and> js_ge time (trimEnd st)
            then (case seek_to (trimStart st) (video\<lparr>el_paused := True\<rparr>) of
                    Some v \<Rightarrow> st1\<lparr>videoRef := Some v, isPlaying := False\<rparr>
                  | None \<Rightarrow> st1\<lparr>videoRef := Some (video\<lparr>el_paused := True\<rparr>)\<rparr>)
            else st1))"

text \<open>
  \<open>handleDrag\<close> runs when a handle is pressed and registers the closure \<open>update\<close>, which
  closes over \<open>trimStart\<close>, \<open>trimEnd\<close> and \<open>duration\<close> of the render in which the handle
  was pressed; without a parent element of the handle it registers nothing. \<open>update\<close>
  reads the rectangle of the track at each move.
\<close>

datatype drag_handle = StartHandle | EndHandle

record drag_closure =
  drag_type :: drag_handle
  cap_trimStart :: jsnum
  cap_trimEnd :: jsnum
  cap_duration :: jsnum


definition drag_time :: "drag_closure \<Rightarrow> jsnum \<Rightarrow> jsnum \<Rightarrow> jsnum \<Rightarrow> jsnum" where
  "drag_time c clientX rect_left rect_width =
    (let percent = js_min (js_max (Fin 0) (dbl_div (dbl_sub clientX rect_left) rect_width))
                     (Fin 1)
     in dbl_mul percent (cap_duration c))"



text \<open>
  What \<open>saveTrim\<close> meets after it has started. \<open>TimeUpdate t\<close> is a \<open>timeupdate\<close> event
  dispatched when the playback position is \<open>t\<close>: the \<open>onTimeUpdate\<close> handler of the
  component, registered when the element was mounted, runs first, then \<open>stopHandler\<close>.
  \<open>final_chunk\<close> is the data that \<open>recorder.stop()\<close> flushes in a last \<open>dataavailable\<close>
  event before \<open>stop\<close>.
\<close>

datatype trim_event = DataAvailable blob | TimeUpdate jsnum

record trim_env =
  seek_completes :: bool
  capture_error :: "js_error option"
  trim_events :: "trim_event list"
  final_chunk :: blob
  date_now :: nat

text \<open>The playback reaches a position; \<open>stopHandler\<close> reads the position.\<close>

definition playback_at :: "jsnum \<Rightarrow> Preview \<Rightarrow> Preview" where
  "playback_at t st =
    (case videoRef st of
       None \<Rightarrow> st
     | Some video \<Rightarrow> st\<lparr>videoRef := Some (video\<lparr>el_currentTime := t\<rparr>)\<rparr>)"

definition stop_reads :: "jsnum \<Rightarrow> Preview \<Rightarrow> bool" where
  "stop_reads stop_at st =
    (case videoRef st of
       None \<Rightarrow> False
     | Some video \<Rightarrow> js_ge (el_currentTime video) stop_at)"

definition pause_video :: "Preview \<Rightarrow> Preview" where
  "pause_video st =
    (case videoRef st of
       None \<Rightarrow> st
     | Some video \<Rightarrow> st\<lparr>videoRef := Some (video\<lparr>el_paused := True\<rparr>)\<rparr>)"


text \<open>
  The events after \<open>recorder.start()\<close>, up to the one at which \<open>stopHandler\<close> stops the
  recorder: the chunks pushed, the state of the component, and whether the recorder was
  stopped before the events ended. \<open>stop_at\<close> is the \<open>trimEnd\<close> that \<open>stopHandler\<close> closed
  over.
\<close>

fun trim_loop ::
  "jsnum \<Rightarrow> blob list \<Rightarrow> Preview \<Rightarrow> trim_event list \<Rightarrow> blob list \<times> Preview \<times> bool" where
  "trim_loop stop_at chunks st [] = (chunks, st, False)"
| "trim_loop stop_at chunks st (DataAvailable b # evs) =
     trim_loop stop_at (if blob_size b > 0 then chunks @ [b] else chunks) st evs"
| "trim_loop stop_at chunks st (TimeUpdate t # evs) =
     (let st1 = handleTimeUpdate (playback_at t st)
      in if stop_reads stop_at st1 then (chunks, pause_video st1, True)
         else trim_loop stop_at chunks st1 evs)"

text \<open>
  The outcome of \<open>saveTrim\<close>: it returned at once, it never finished (the seek or the
  playback did not reach its end), it failed into its \<open>catch\<close>, or \<open>onstop\<close> passed a new
  \<open>RecordedMedia\<close> to \<open>onUpdateMedia\<close>. \<open>onstop\<close> closes over \<open>trimStart\<close>, \<open>trimEnd\<close> and
  \<open>media\<close> of the render in which \<open>saveTrim\<close> was called.
\<close>

datatype trim_result = NoVideo | Unfinished | Failed | Updated RecordedMedia

definition saveTrim :: "trim_env \<Rightarrow> blob list \<Rightarrow> Preview \<Rightarrow> Preview \<times> blob list \<times> trim_result" where
  "saveTrim e heap st =
    (case videoRef st of
       None \<Rightarrow> (st, heap, NoVideo)
     | Some video \<Rightarrow>
        (let st0 = st\<lparr>isProcessing := True, isPlaying := True\<rparr>
         in case seek_to (trimStart st) video of
              None \<Rightarrow> (st0\<lparr>isProcessing := False\<rparr>, heap, Failed)
            | Some v \<Rightarrow>
               (let st1 = st0\<lparr>videoRef := Some v\<rparr>
                in if \<not> seek_completes e then (st1, heap, Unfinished)
                   else
                     (case (capture_error e, blob_at heap (media_blob (media st))) of
                        (Some err, _) \<Rightarrow> (st1\<lparr>isProcessing := False\<rparr>, heap, Failed)
                      | (None, None) \<Rightarrow> (st1\<lparr>isProcessing := False\<rparr>, heap, Failed)
                      | (None, Some b) \<Rightarrow>
                         (case trim_loop (trimEnd st) []
                                 (st1\<lparr>videoRef := Some (v\<lparr>el_paused := False\<rparr>)\<rparr>)
                                 (trim_events e) of
                            (pushed, st2, False) \<Rightarrow> (st2, heap, Unfinished)
                          | (pushed, st2, True) \<Rightarrow>
                             (let chunks = (if blob_size (final_chunk e) > 0
                                            then pushed @ [final_chunk e] else pushed);
                                  newBlob = length heap;
                                  newDuration =
                                    dbl_mul (dbl_sub (trimEnd st) (trimStart st)) (Fin 1000)
                              in (st2\<lparr>isProcessing := False, isEditing := False,
                                      isPlaying := False\<rparr>,
                                  heap @ [new_Blob chunks (blob_type b)],
                                  Updated ((media st)\<lparr>media_blob := newBlob,
                                             media_url := newBlob,
                                             media_duration := newDuration,
                                             media_timestamp := date_now e\<rparr>))))))))"


section \<open>Derived notions and concrete inputs\<close>

text \<open>
  Of the chunk events of a session, the non-empty chunks whose write succeeds and those
  whose write fails, in arrival order.
\<close>

definition written_ok :: "(blob \<times> write_outcome) list \<Rightarrow> blob list" where
  "written_ok evs = map fst (filter (\<lambda>ev. blob_size (fst ev) > 0 \<and> snd ev = WriteOk) evs)"

definition write_failed :: "(blob \<times> write_outcome) list \<Rightarrow> blob list" where
  "write_failed evs = map fst (filter (\<lambda>ev. blob_size (fst ev) > 0 \<and> snd ev = WriteFails) evs)"


text \<open>Tracks, streams and browsers used as concrete inputs below.\<close>

definition video_track :: "nat \<Rightarrow> MediaStreamTrack" where
  "video_track i = \<lparr>track_id = i, track_kind = VideoTrack\<rparr>"

definition audio_track :: "nat \<Rightarrow> MediaStreamTrack" where
  "audio_track i = \<lparr>track_id = i, track_kind = AudioTrack\<rparr>"

definition audio_ok :: audio_env where
  "audio_ok = \<lparr>ctx_ctor_error = None, ctx_suspended = False, resume_fails = False,
     desktop_source_fails = False, voice_source_fails = False,
     dest_stream = [audio_track 9]\<rparr>"

text \<open>
  Every prompt is granted: a display stream with a video and an audio track, a save
  dialog that yields a writable, a microphone stream with one audio track.
\<close>

definition env_granted :: start_env where
  "env_granted =
    \<lparr>display_result = Inr [video_track 1, audio_track 2],
     has_showSaveFilePicker = True,
     picker_result = Inr (),
     createWritable_result = Inr (),
     mic_result = Inr [audio_track 3],
     audio = audio_ok,
     supported_types = [''video/webm''],
     combined_active = True,
     recorder_ctor_error = None,
     recorder_start_error = None,
     interval_handle = 1,
     camera_result = Inr [video_track 4],
     t_errorGeneric = ''error'',
     t_saveSuccess = ''saved''\<rparr>"

text \<open>The same, but the combined stream is found inactive before the recorder is built.\<close>

definition env_inactive :: start_env where
  "env_inactive = env_granted\<lparr>combined_active := False\<rparr>"

text \<open>The same, but the user cancels the save dialog.\<close>

definition env_cancel :: start_env where
  "env_cancel = env_granted\<lparr>picker_result :=
     Inl \<lparr>err_name = ''AbortError'', err_message = ''The user aborted a request.''\<rparr>\<rparr>"

definition chunk_a :: blob where
  "chunk_a = Blob [1, 2] ''video/webm''"

definition chunk_b :: blob where
  "chunk_b = Blob [3] ''video/webm''"


text \<open>A session that records straight to disk, before its first chunk.\<close>

definition session_disk :: App where
  "session_disk = initial_App\<lparr>writableStreamRef := Some \<lparr>written = []\<rparr>\<rparr>"


definition tick_unknown :: tick_env where
  "tick_unknown = \<lparr>videoWidth = 0, videoHeight = 0, innerWidth = Fin 960,
     innerHeight = Fin 540, overlay_x = Fin 100, overlay_y = Fin 50, raf_handle = 1\<rparr>"

text \<open>A compositor after its constructor, with the given context.\<close>

definition compositor_new :: "canvas_op list option \<Rightarrow> VideoCompositor" where
  "compositor_new c = \<lparr>ctx = c, canvas_width = 300, canvas_height = 150, animationId = 0,
     raf_requests = 0, pos_polls = 0\<rparr>"







section \<open>The video compositor\<close>






text \<open>
  C9, as amended. On a tick where the width or the height of the screen video is zero,
  no call is issued on the context, the canvas keeps its size and the overlay position is
  not polled; \<open>draw\<close> has no failing branch. The next frame is requested if the
  compositor has a context; without a context the tick returns at once and requests
  nothing.
\<close>

theorem C9_unknown_resolution:
  assumes "videoWidth e = 0 \<or> videoHeight e = 0"
  shows "ctx (draw e vc) = ctx vc \<and> issued vc (draw e vc) = [] \<and>
         canvas_width (draw e vc) = canvas_width vc \<and>
         canvas_height (draw e vc) = canvas_height vc \<and>
         pos_polls (draw e vc) = pos_polls vc \<and>
         raf_requests (draw e vc) =
           (if ctx vc = None then raf_requests vc else raf_requests vc + 1)"
  using assms by (auto simp add: draw_def issued_def ctx_calls_def Let_def split: option.splits)

theorem C9_unknown_resolution_witness:
  "videoWidth tick_unknown = 0 \<and>
   ctx (draw tick_unknown (compositor_new (Some [Save]))) = Some [Save] \<and>
   pos_polls (draw tick_unknown (compositor_new (Some [Save]))) = 0 \<and>
   raf_requests (draw tick_unknown (compositor_new (Some [Save]))) = 1"
  using C9_unknown_resolution [of tick_unknown "compositor_new (Some [Save])"]
  by (simp add: tick_unknown_def compositor_new_def)

text \<open>
  C9 as stated fails for a compositor without a context: the tick at an unknown
  resolution leaves the compositor as it was, and no next frame is requested.
\<close>

theorem C9_counterexample:
  "videoWidth tick_unknown = 0 \<and>
   draw tick_unknown (compositor_new None) = compositor_new None \<and>
   raf_requests (draw tick_unknown (compositor_new None)) = 0"
  by (simp add: tick_unknown_def compositor_new_def draw_def)


section \<open>The audio mixer\<close>




text \<open>
  C5, as amended. When neither the desktop stream nor the voice stream has an audio track
  and the \<open>AudioContext\<close> can be constructed, the mixer returns without an exception, not
  even one that it would catch (the only warning possible is that of a failed \<open>resume\<close>):
  no source node is created and nothing is connected to the destination. The stream
  returned holds the video tracks of the desktop stream and the audio tracks of the
  stream of the destination, so its audio tracks are those of the destination, fed by
  nothing.
\<close>

theorem C5_no_audio_sources:
  assumes "getAudioTracks desktopStream = []"
    and "case voiceStream of None \<Rightarrow> True | Some v \<Rightarrow> getAudioTracks v = []"
    and "ctx_ctor_error a = None"
  shows "mergeAudioStreams a desktopStream voiceStream =
           Inr \<lparr>out_stream = getVideoTracks desktopStream @ getAudioTracks (dest_stream a),
                connected = [],
                warnings = (if ctx_suspended a \<and> resume_fails a
                            then [''Failed to resume AudioContext:''] else [])\<rparr> \<and>
         getAudioTracks (getVideoTracks desktopStream @ getAudioTracks (dest_stream a)) =
           getAudioTracks (dest_stream a)"
  using assms
  by (auto simp add: mergeAudioStreams_def Let_def getVideoTracks_def getAudioTracks_def
      split: option.splits)

theorem C5_no_audio_sources_witness:
  "getAudioTracks [video_track 1] = [] \<and> getAudioTracks [video_track 4] = [] \<and>
   ctx_ctor_error audio_ok = None \<and>
   mergeAudioStreams audio_ok [video_track 1] (Some [video_track 4]) =
     Inr \<lparr>out_stream = [video_track 1, audio_track 9], connected = [], warnings = []\<rparr>"
  using C5_no_audio_sources [of "[video_track 1]" "Some [video_track 4]" audio_ok]
  by (simp add: audio_ok_def video_track_def audio_track_def getAudioTracks_def
      getVideoTracks_def)

text \<open>
  C5 as stated fails in a browser whose destination node has an audio track, as
  \<open>audio_ok\<close>: with no audio track in either input, the returned stream carries the
  audio track 9 of the destination.
\<close>

theorem C5_counterexample:
  "getAudioTracks [video_track 1] = [] \<and> getAudioTracks [video_track 4] = [] \<and>
   mergeAudioStreams audio_ok [video_track 1] (Some [video_track 4]) =
     Inr \<lparr>out_stream = [video_track 1, audio_track 9], connected = [], warnings = []\<rparr> \<and>
   getAudioTracks [video_track 1, audio_track 9] = [audio_track 9]"
  by (simp add: mergeAudioStreams_def audio_ok_def video_track_def audio_track_def Let_def
      getVideoTracks_def getAudioTracks_def)


section \<open>The recording session\<close>

lemmas start_defs = startRecording_def start_try_def setup_file_handle_def save_catch_def
  get_mic_def start_recorder_def call_def stop_tracks_def getTracks_def getVideoTracks_def

text \<open>
  C1. The claim asks that the exit of \<open>startRecording\<close> taken when the combined stream is
  inactive stop the display and the microphone tracks. The code does not: at
  \<open>env_inactive\<close>, where the display stream has tracks 1 and 2 and the microphone
  stream track 3, the function returns in state \<open>IDLE\<close> without a recorder, and its calls
  are the three prompts and the creation of the writable, with no \<open>TrackStop\<close> among
  them. The exit taken when the save dialog is cancelled and the outer \<open>catch\<close> both stop
  the tracks of the display stream.
\<close>

theorem C1_inactive_abort_stops_nothing:
  "state (startRecording env_inactive initial_App) = IDLE \<and>
   mediaRecorderRef (startRecording env_inactive initial_App) = None \<and>
   calls (startRecording env_inactive initial_App) =
     [GetDisplayMedia True, ShowSaveFilePicker, CreateWritable, GetUserMediaAudio]"
  by (simp add: start_defs mergeAudioStreams_def env_inactive_def env_granted_def audio_ok_def
      initial_App_def video_track_def audio_track_def Let_def)

text \<open>
  C6. When the display stream was granted with a video track and the save dialog is
  aborted, \<open>startRecording\<close> calls \<open>getDisplayMedia\<close> and \<open>showSaveFilePicker\<close>, then stops
  every track of the display stream, and returns: the microphone is not asked for, no
  recorder is constructed or started, the recorder ref is untouched, the chunk buffer is
  empty, no writable is installed, the state is still \<open>IDLE\<close> and no error is set.
\<close>

theorem C6_save_dialog_cancelled:
  assumes "display_result e = Inr ds" and "getVideoTracks ds \<noteq> []"
    and "has_showSaveFilePicker e" and "picker_result e = Inl err"
    and "err_name err = ''AbortError''" and "state st = IDLE"
  shows "state (startRecording e st) = IDLE \<and>
         error (startRecording e st) = None \<and>
         calls (startRecording e st) =
           calls st @ [GetDisplayMedia (enableSystemAudio (settings st)), ShowSaveFilePicker]
             @ map (\<lambda>t. TrackStop (track_id t)) ds \<and>
         mediaRecorderRef (startRecording e st) = mediaRecorderRef st \<and>
         chunksRef (startRecording e st) = [] \<and>
         writableStreamRef (startRecording e st) = None"
  using assms by (simp add: start_defs Let_def)

theorem C6_save_dialog_cancelled_witness:
  "display_result env_cancel = Inr [video_track 1, audio_track 2] \<and>
   state (startRecording env_cancel initial_App) = IDLE \<and>
   error (startRecording env_cancel initial_App) = None \<and>
   calls (startRecording env_cancel initial_App) =
     [GetDisplayMedia True, ShowSaveFilePicker, TrackStop 1, TrackStop 2] \<and>
   mediaRecorderRef (startRecording env_cancel initial_App) = None \<and>
   chunksRef (startRecording env_cancel initial_App) = []"
  using C6_save_dialog_cancelled [of env_cancel "[video_track 1, audio_track 2]" 
      "\<lparr>err_name = ''AbortError'', err_message = ''The user aborted a request.''\<rparr>" initial_App]
  by (simp add: env_cancel_def env_granted_def initial_App_def video_track_def audio_track_def
      getVideoTracks_def)



lemma deliver_disk:
  "writableStreamRef st = Some w \<Longrightarrow>
   deliver st evs = st\<lparr>chunksRef := chunksRef st @ write_failed evs,
                        writableStreamRef := Some (w\<lparr>written := written w @ written_ok evs\<rparr>)\<rparr>"
proof (induction evs arbitrary: st w)
  case Nil
  then show ?case by (simp add: write_failed_def written_ok_def)
next
  case (Cons ev evs)
  obtain b out where ev: "ev = (b, out)" by (cases ev)
  show ?case
  proof (cases "blob_size b > 0")
    case False
    then show ?thesis
      using Cons.prems Cons.IH [of st w]
      by (simp add: ev ondataavailable_def write_failed_def written_ok_def)
  next
    case True
    show ?thesis
    proof (cases out)
      case WriteOk
      then show ?thesis
        using True Cons.prems
          Cons.IH [of "st\<lparr>writableStreamRef := Some (w\<lparr>written := written w @ [b]\<rparr>)\<rparr>"
                      "w\<lparr>written := written w @ [b]\<rparr>"]
        by (simp add: ev ondataavailable_def write_failed_def written_ok_def)
    next
      case WriteFails
      then show ?thesis
        using True Cons.prems Cons.IH [of "st\<lparr>chunksRef := chunksRef st @ [b]\<rparr>" w]
        by (simp add: ev ondataavailable_def write_failed_def written_ok_def)
    qed
  qed
qed



text \<open>
  C2, as amended. When a writable was negotiated, it stays installed for the whole
  session, whatever the outcome of the writes: of the chunks delivered, exactly the
  non-empty ones whose own write fails are appended to the in-memory buffer, and exactly
  the non-empty ones whose write succeeds are written to the target, both in arrival
  order. A chunk that follows a failed write is still written to the target first.
\<close>

theorem C2_failed_writes_to_memory:
  assumes "writableStreamRef st = Some w"
  shows "chunksRef (deliver st evs) = chunksRef st @ write_failed evs \<and>
         writableStreamRef (deliver st evs) = Some (w\<lparr>written := written w @ written_ok evs\<rparr>)"
  using assms by (simp add: deliver_disk)

theorem C2_failed_writes_to_memory_witness:
  "writableStreamRef session_disk = Some \<lparr>written = []\<rparr> \<and>
   chunksRef (deliver session_disk [(chunk_a, WriteFails), (chunk_b, WriteOk), (chunk_a, WriteFails)])
     = [chunk_a, chunk_a] \<and>
   writableStreamRef (deliver session_disk
       [(chunk_a, WriteFails), (chunk_b, WriteOk), (chunk_a, WriteFails)]) =
     Some \<lparr>written = [chunk_b]\<rparr>"
  using C2_failed_writes_to_memory [of session_disk "\<lparr>written = []\<rparr>"
      "[(chunk_a, WriteFails), (chunk_b, WriteOk), (chunk_a, WriteFails)]"]
  by (simp add: session_disk_def initial_App_def chunk_a_def chunk_b_def write_failed_def
      written_ok_def blob_size_def)

text \<open>
  C2 as stated fails when a write succeeds after a failed one: the later chunk
  \<open>chunk_b\<close> is written to the target and is not in the in-memory buffer.
\<close>

theorem C2_counterexample:
  "chunksRef (deliver session_disk [(chunk_a, WriteFails), (chunk_b, WriteOk)]) = [chunk_a] \<and>
   writableStreamRef (deliver session_disk [(chunk_a, WriteFails), (chunk_b, WriteOk)]) =
     Some \<lparr>written = [chunk_b]\<rparr>"
  by (simp add: session_disk_def initial_App_def chunk_a_def chunk_b_def ondataavailable_def
      blob_size_def)






section \<open>Rounding\<close>














section \<open>The preview\<close>






text \<open>
  A pointer over a track of non-zero width, with a finite duration, yields a finite
  time.
\<close>

lemma drag_time_finite:
  assumes "cap_duration c = Fin d" and "w \<noteq> 0"
  shows "js_isFinite (drag_time c (Fin x) (Fin l) (Fin w))"
  using assms
  by (simp add: drag_time_def dbl_sub_def dbl_div_def dbl_mul_def js_sub_def js_min_def
      js_max_def js_isFinite_def Let_def)






text \<open>What a run of \<open>saveTrim\<close> that reaches \<open>onstop\<close> went through.\<close>

lemma saveTrim_Updated:
  assumes "saveTrim e heap st = (st', heap', Updated m')"
  shows "\<exists>video v b pushed st2.
           videoRef st = Some video \<and> seek_to (trimStart st) video = Some v \<and>
           blob_at heap (media_blob (media st)) = Some b \<and>
           trim_loop (trimEnd st) []
             (st\<lparr>isProcessing := True, isPlaying := True,
                 videoRef := Some (v\<lparr>el_paused := False\<rparr>)\<rparr>) (trim_events e) =
             (pushed, st2, True) \<and>
           media st' = media st2 \<and>
           heap' = heap @ [new_Blob (if blob_size (final_chunk e) > 0
                                     then pushed @ [final_chunk e] else pushed) (blob_type b)] \<and>
           m' = (media st)\<lparr>media_blob := length heap, media_url := length heap,
                   media_duration := dbl_mul (dbl_sub (trimEnd st) (trimStart st)) (Fin 1000),
                   media_timestamp := date_now e\<rparr>"
proof -
  obtain video where video: "videoRef st = Some video"
    using assms by (cases "videoRef st") (simp_all add: saveTrim_def)
  obtain v where v: "seek_to (trimStart st) video = Some v"
    using assms video by (cases "seek_to (trimStart st) video") (simp_all add: saveTrim_def Let_def)
  have seek: "seek_completes e"
    using assms video v by (cases "seek_completes e") (simp_all add: saveTrim_def Let_def)
  have cap: "capture_error e = None"
    using assms video v seek by (cases "capture_error e") (simp_all add: saveTrim_def Let_def)
  obtain b where b: "blob_at heap (media_blob (media st)) = Some b"
    using assms video v seek cap
    by (cases "blob_at heap (media_blob (media st))") (simp_all add: saveTrim_def Let_def)
  obtain pushed st2 stopped where loop:
    "trim_loop (trimEnd st) []
       (st\<lparr>isProcessing := True, isPlaying := True, videoRef := Some (v\<lparr>el_paused := False\<rparr>)\<rparr>)
       (trim_events e) = (pushed, st2, stopped)"
    using prod_cases3 by blast
  have stopped: "stopped"
    using assms video v seek cap b loop by (cases stopped) (simp_all add: saveTrim_def Let_def)
  show ?thesis
    using assms video v seek cap b loop stopped by (auto simp add: saveTrim_def Let_def)
qed


text \<open>
  In edit mode, with a window whose start is before its end, the \<open>onTimeUpdate\<close> handler
  rewinds the element before \<open>stopHandler\<close> reads it, and \<open>saveTrim\<close> never reaches
  \<open>onstop\<close>.
\<close>

lemma trim_loop_edit_mode:
  assumes "isEditing st" and "trimStart st = Fin s" and "trimEnd st = Fin en" and "s < en"
  shows "snd (snd (trim_loop (Fin en) chunks st evs)) = False"
  using assms
proof (induction evs arbitrary: chunks st)
  case Nil
  then show ?case by simp
next
  case (Cons ev evs)
  show ?case
  proof (cases ev)
    case (DataAvailable b)
    then show ?thesis using Cons by simp
  next
    case (TimeUpdate t)
    define st1 where "st1 = handleTimeUpdate (playback_at t st)"
    have keep: "isEditing st1" "trimStart st1 = Fin s" "trimEnd st1 = Fin en"
      using Cons.prems
      by (auto simp add: st1_def handleTimeUpdate_def playback_at_def seek_to_def
          js_isFinite_def Let_def split: option.splits)
    have no_stop: "\<not> stop_reads (Fin en) st1"
      using Cons.prems
      by (auto simp add: st1_def stop_reads_def handleTimeUpdate_def playback_at_def
          seek_to_def js_isFinite_def js_ge_def Let_def split: option.splits)
    have "snd (snd (trim_loop (Fin en) chunks st1 evs)) = False"
      using Cons.IH [OF keep Cons.prems(4)] .
    then show ?thesis
      using no_stop by (simp add: TimeUpdate st1_def Let_def)
  qed
qed

lemma saveTrim_edit_mode_unfinished:
  assumes "isEditing st" and "trimStart st = Fin s" and "trimEnd st = Fin en" and "s < en"
  shows "saveTrim e heap st \<noteq> (st', heap', Updated m')"
proof
  assume "saveTrim e heap st = (st', heap', Updated m')"
  then obtain v pushed st2 where run:
    "trim_loop (trimEnd st) []
       (st\<lparr>isProcessing := True, isPlaying := True, videoRef := Some (v\<lparr>el_paused := False\<rparr>)\<rparr>)
       (trim_events e) = (pushed, st2, True)"
    using saveTrim_Updated by blast
  have "snd (snd (trim_loop (Fin en) []
       (st\<lparr>isProcessing := True, isPlaying := True, videoRef := Some (v\<lparr>el_paused := False\<rparr>)\<rparr>)
       (trim_events e))) = False"
    by (rule trim_loop_edit_mode [OF _ _ _ assms(4)]) (simp_all add: assms)
  then show False using run assms(3) by simp
qed





end
